theory Spec2Isabelle
  imports Main "HOL-Library.Word"
begin

section \<open>Values shared by the client operations\<close>

text \<open>
  Go byte slices and Go strings are both byte sequences; a \<open>char\<close> is one byte.
  \<open>uint\<close> is the 64-bit unsigned machine integer. A \<open>time.Time\<close> is kept as the
  number of nanoseconds since the epoch, in UTC.
\<close>

type_synonym bytes = string
type_synonym uint = "64 word"
type_synonym time = int

text \<open>
  A Go \<open>error\<close> value. \<open>ErrMsg\<close> is an error produced outside this package (transport,
  JSON or gob library, a signal handler); \<open>Errorf prefix e\<close> is
  \<open>fmt.Errorf(prefix + "%v", e)\<close>, the wrapping every call site of the package uses.
\<close>

datatype error = ErrMsg string | Errorf string error

text \<open>
  A call either returns its Go result or panics (index out of range, nil dereference,
  call of a nil function value).
\<close>

datatype 'a outcome = Returns 'a | Panics string

subsection \<open>Requests and sessions\<close>

record User =
  Login :: string
  Name :: string
  Email :: string
  Password :: string
  PasswordChanged :: time

record UserSession =
  SessionUser :: "User option"
  Locale :: string

record Request =
  ReqId :: uint
  NodePath :: string
  Site :: string
  Query :: "string \<rightharpoonup> string list"
  Method :: uint
  Session :: "UserSession option"
  Action :: uint
  FormData :: "string \<rightharpoonup> string list"

subsection \<open>Node types\<close>

text \<open>
  Modelled from the spec: the descriptor of one declared field (an element of
  \<open>NodeType.Fields\<close> and of \<open>Node.LocalFields\<close>), whose declaration is not among the
  source files: a named slot with a namespaced id of the form \<open><group>.<name>\<close>.
  The source reads only its \<open>Id\<close>.
\<close>

record FieldType =
  FieldId :: string
  FieldKind :: string

text \<open>
  Modelled from the spec: a document kind with a global id and an ordered list of field
  descriptors. The source reads \<open>Id\<close> and \<open>Fields\<close>.
\<close>

record NodeType =
  TypeId :: string
  TypeFields :: "FieldType list"

subsection \<open>The transport\<close>

text \<open>
  The argument structs the operations hand to \<open>RPCClient.Call\<close>, and the reply shapes
  they ask for.
\<close>

datatype rpc_args =
    ArgString string
  | ArgUint uint
  | ArgsSitePath string string
  | ArgsSitePathFile string string string
  | ArgsSitePathFileContent string string string bytes
  | ArgsSiteNode string string
  | ArgsSiteSourceTarget string string string
  | ArgsSiteName string string
  | ArgsIdRet string bytes

datatype rpc_reply =
    ReplyInt int
  | ReplyBytes bytes
  | ReplyBytesList "bytes list"
  | ReplyRequest Request
  | ReplyNodeType NodeType
  | ReplySignal string bytes

text \<open>
  \<open>RPCClient.Call(name, args, &reply)\<close> is an effect on the connection. The connection
  (with the broker behind it) is a state of an arbitrary type \<open>'t\<close>, and one call is a
  transition of it that yields an error or a reply. An operation performs no transport
  I/O exactly when it leaves this state as it was, whatever the transition function is.
\<close>

type_synonym 't rpc = "string \<Rightarrow> rpc_args \<Rightarrow> 't \<Rightarrow> (error + rpc_reply) \<times> 't"

text \<open>
  The reply is decoded into the variable the caller passes; a reply of another shape
  fails to decode and the call returns an error.
\<close>

definition callInt :: "'t rpc \<Rightarrow> string \<Rightarrow> rpc_args \<Rightarrow> 't \<Rightarrow> (error + int) \<times> 't" where
  "callInt rpc name args t =
     (case rpc name args t of
        (Inl e, t') \<Rightarrow> (Inl e, t')
      | (Inr (ReplyInt i), t') \<Rightarrow> (Inr i, t')
      | (Inr _, t') \<Rightarrow> (Inl (ErrMsg ''reading body''), t'))"

definition callBytes :: "'t rpc \<Rightarrow> string \<Rightarrow> rpc_args \<Rightarrow> 't \<Rightarrow> (error + bytes) \<times> 't" where
  "callBytes rpc name args t =
     (case rpc name args t of
        (Inl e, t') \<Rightarrow> (Inl e, t')
      | (Inr (ReplyBytes b), t') \<Rightarrow> (Inr b, t')
      | (Inr _, t') \<Rightarrow> (Inl (ErrMsg ''reading body''), t'))"

definition callBytesList ::
  "'t rpc \<Rightarrow> string \<Rightarrow> rpc_args \<Rightarrow> 't \<Rightarrow> (error + bytes list) \<times> 't" where
  "callBytesList rpc name args t =
     (case rpc name args t of
        (Inl e, t') \<Rightarrow> (Inl e, t')
      | (Inr (ReplyBytesList bs), t') \<Rightarrow> (Inr bs, t')
      | (Inr _, t') \<Rightarrow> (Inl (ErrMsg ''reading body''), t'))"

definition callRequest ::
  "'t rpc \<Rightarrow> string \<Rightarrow> rpc_args \<Rightarrow> 't \<Rightarrow> (error + Request) \<times> 't" where
  "callRequest rpc name args t =
     (case rpc name args t of
        (Inl e, t') \<Rightarrow> (Inl e, t')
      | (Inr (ReplyRequest r), t') \<Rightarrow> (Inr r, t')
      | (Inr _, t') \<Rightarrow> (Inl (ErrMsg ''reading body''), t'))"

definition callNodeType ::
  "'t rpc \<Rightarrow> string \<Rightarrow> rpc_args \<Rightarrow> 't \<Rightarrow> (error + NodeType) \<times> 't" where
  "callNodeType rpc name args t =
     (case rpc name args t of
        (Inl e, t') \<Rightarrow> (Inl e, t')
      | (Inr (ReplyNodeType nt), t') \<Rightarrow> (Inr nt, t')
      | (Inr _, t') \<Rightarrow> (Inl (ErrMsg ''reading body''), t'))"

definition callSignal ::
  "'t rpc \<Rightarrow> string \<Rightarrow> rpc_args \<Rightarrow> 't \<Rightarrow> (error + string \<times> bytes) \<times> 't" where
  "callSignal rpc name args t =
     (case rpc name args t of
        (Inl e, t') \<Rightarrow> (Inl e, t')
      | (Inr (ReplySignal n a), t') \<Rightarrow> (Inr (n, a), t')
      | (Inr _, t') \<Rightarrow> (Inl (ErrMsg ''reading body''), t'))"

subsection \<open>The client\<close>

text \<open>
  \<open>MonstiClient\<close> embeds \<open>Client\<close> (sticky \<open>Error\<close>, \<open>Id\<close>, \<open>RPCClient\<close>) and adds the
  table of signal handlers. \<open>Error = None\<close> is Go's \<open>nil\<close>.
\<close>

record ('t, 'h) MonstiClient =
  Error :: "error option"
  ClientId :: string
  RPCClient :: 't
  SignalHandlers :: "string \<rightharpoonup> 'h"

definition ModuleInitDone ::
  "'t rpc \<Rightarrow> string \<Rightarrow> ('t, 'h) MonstiClient \<Rightarrow> error option \<times> ('t, 'h) MonstiClient" where
  "ModuleInitDone rpc module s =
     (case Error s of
        Some e \<Rightarrow> (Some e, s)
      | None \<Rightarrow>
          (case callInt rpc ''Monsti.ModuleInitDone'' (ArgString module) (RPCClient s) of
             (Inl err, t) \<Rightarrow>
               (Some (Errorf ''service: ModuleInitDone error: '' err), s\<lparr>RPCClient := t\<rparr>)
           | (Inr _, t) \<Rightarrow> (None, s\<lparr>RPCClient := t\<rparr>)))"

definition GetNodeData ::
  "'t rpc \<Rightarrow> string \<Rightarrow> string \<Rightarrow> string \<Rightarrow> ('t, 'h) MonstiClient
     \<Rightarrow> (error + bytes) \<times> ('t, 'h) MonstiClient" where
  "GetNodeData rpc site path file s =
     (case Error s of
        Some e \<Rightarrow> (Inl e, s)
      | None \<Rightarrow>
          (case callBytes rpc ''Monsti.GetNodeData'' (ArgsSitePathFile site path file)
                  (RPCClient s) of
             (Inl err, t) \<Rightarrow>
               (Inl (Errorf ''service: GetNodeData error:'' err), s\<lparr>RPCClient := t\<rparr>)
           | (Inr reply, t) \<Rightarrow> (Inr reply, s\<lparr>RPCClient := t\<rparr>)))"

definition WriteNodeData ::
  "'t rpc \<Rightarrow> string \<Rightarrow> string \<Rightarrow> string \<Rightarrow> bytes \<Rightarrow> ('t, 'h) MonstiClient
     \<Rightarrow> error option \<times> ('t, 'h) MonstiClient" where
  "WriteNodeData rpc site path file content s =
     (case Error s of
        Some e \<Rightarrow> (None, s)
      | None \<Rightarrow>
          (case callInt rpc ''Monsti.WriteNodeData''
                  (ArgsSitePathFileContent site path file content) (RPCClient s) of
             (Inl err, t) \<Rightarrow>
               (Some (Errorf ''service: WriteNodeData error: '' err), s\<lparr>RPCClient := t\<rparr>)
           | (Inr _, t) \<Rightarrow> (None, s\<lparr>RPCClient := t\<rparr>)))"

definition RemoveNode ::
  "'t rpc \<Rightarrow> string \<Rightarrow> string \<Rightarrow> ('t, 'h) MonstiClient
     \<Rightarrow> error option \<times> ('t, 'h) MonstiClient" where
  "RemoveNode rpc site node s =
     (case Error s of
        Some e \<Rightarrow> (None, s)
      | None \<Rightarrow>
          (case callInt rpc ''Monsti.RemoveNode'' (ArgsSiteNode site node) (RPCClient s) of
             (Inl err, t) \<Rightarrow>
               (Some (Errorf ''service: RemoveNode error: '' err), s\<lparr>RPCClient := t\<rparr>)
           | (Inr _, t) \<Rightarrow> (None, s\<lparr>RPCClient := t\<rparr>)))"

definition RenameNode ::
  "'t rpc \<Rightarrow> string \<Rightarrow> string \<Rightarrow> string \<Rightarrow> ('t, 'h) MonstiClient
     \<Rightarrow> error option \<times> ('t, 'h) MonstiClient" where
  "RenameNode rpc site source target s =
     (case Error s of
        Some e \<Rightarrow> (None, s)
      | None \<Rightarrow>
          (case callInt rpc ''Monsti.RenameNode'' (ArgsSiteSourceTarget site source target)
                  (RPCClient s) of
             (Inl err, t) \<Rightarrow>
               (Some (Errorf ''service: RenameNode error: '' err), s\<lparr>RPCClient := t\<rparr>)
           | (Inr _, t) \<Rightarrow> (None, s\<lparr>RPCClient := t\<rparr>)))"

definition GetNodeType ::
  "'t rpc \<Rightarrow> string \<Rightarrow> ('t, 'h) MonstiClient
     \<Rightarrow> (error + NodeType option) \<times> ('t, 'h) MonstiClient" where
  "GetNodeType rpc nodeTypeID s =
     (case Error s of
        Some e \<Rightarrow> (Inl e, s)
      | None \<Rightarrow>
          (case callNodeType rpc ''Monsti.GetNodeType'' (ArgString nodeTypeID) (RPCClient s) of
             (Inl err, t) \<Rightarrow>
               (Inl (Errorf ''service: Error calling GetNodeType: '' err), s\<lparr>RPCClient := t\<rparr>)
           | (Inr nodeType, t) \<Rightarrow> (Inr (Some nodeType), s\<lparr>RPCClient := t\<rparr>)))"

definition GetRequest ::
  "'t rpc \<Rightarrow> uint \<Rightarrow> ('t, 'h) MonstiClient
     \<Rightarrow> (error + Request option) \<times> ('t, 'h) MonstiClient" where
  "GetRequest rpc rid s =
     (case Error s of
        Some e \<Rightarrow> (Inl e, s)
      | None \<Rightarrow>
          (case callRequest rpc ''Monsti.GetRequest'' (ArgUint rid) (RPCClient s) of
             (Inl err, t) \<Rightarrow>
               (Inl (Errorf ''service: Monsti.GetRequest error: '' err), s\<lparr>RPCClient := t\<rparr>)
           | (Inr req, t) \<Rightarrow>
               (if ReqId req \<noteq> rid then (Inr None, s\<lparr>RPCClient := t\<rparr>)
                else (Inr (Some req), s\<lparr>RPCClient := t\<rparr>))))"

section \<open>The node codec\<close>

text \<open>
  Modelled from the spec: the \<open>Node\<close> struct, whose declaration is not among the source
  files: a path, a reference to its node type (a pointer, possibly nil), a last-changed
  timestamp and a mapping from field id to field value. \<open>LocalFields\<close> are the node-local
  extra field descriptors the source reads. \<open>'f\<close> is the type of field values.
\<close>

record 'f Node =
  Path :: string
  Type :: "NodeType option"
  Changed :: time
  Fields :: "string \<rightharpoonup> 'f"
  LocalFields :: "FieldType list"

text \<open>
  \<open>nodeJSON\<close>: the envelope. It embeds the node and adds the type id and the two-level
  mapping group, name, raw dump; a raw dump is held through a pointer, which may be nil.
\<close>

record 'f nodeJSON =
  nodeJSON_Node :: "'f Node"
  nodeJSON_Type :: string
  nodeJSON_Fields :: "string \<rightharpoonup> (string \<rightharpoonup> bytes option)"

text \<open>
  What the codec calls and this package does not define: the \<open>Field\<close> interface
  (\<open>Dump\<close>, and \<open>Load\<close>, which is handed a function that unmarshals the raw dump and
  returns the changed field with an error), the constructor of a fresh field used by
  \<open>InitFields\<close>, and \<open>encoding/json\<close> (\<open>Marshal\<close> of a dump, \<open>Marshal\<close> or
  \<open>MarshalIndent\<close> of the envelope according to the flag, \<open>Unmarshal\<close> of the envelope).
\<close>

record ('f, 'd) env =
  Dump :: "'f \<Rightarrow> 'd"
  Load :: "'f \<Rightarrow> bytes \<Rightarrow> error option \<times> 'f"
  NewField :: "FieldType \<Rightarrow> error + 'f"
  MarshalDump :: "'d \<Rightarrow> error + bytes"
  MarshalNode :: "bool \<Rightarrow> 'f nodeJSON \<Rightarrow> error + bytes"
  UnmarshalNode :: "bytes \<Rightarrow> error + 'f nodeJSON"

text \<open>\<open>strings.SplitN(s, sep, 2)\<close> for a separator of one byte.\<close>

definition SplitN2 :: "string \<Rightarrow> char \<Rightarrow> string list" where
  "SplitN2 s sep =
     (if sep \<in> set s
      then [takeWhile (\<lambda>c. c \<noteq> sep) s, tl (dropWhile (\<lambda>c. c \<noteq> sep) s)]
      else [s])"

text \<open>
  The loop of \<open>nodeToData\<close> over the declared and the local fields. \<open>node.Fields[id]\<close>
  of a missing id is a nil interface, whose \<open>Dump\<close> panics; \<open>parts[1]\<close> panics when the
  id has no dot.
\<close>

fun dumpFields ::
  "('f, 'd) env \<Rightarrow> 'f Node \<Rightarrow> FieldType list \<Rightarrow> (string \<rightharpoonup> (string \<rightharpoonup> bytes option))
     \<Rightarrow> (error + (string \<rightharpoonup> (string \<rightharpoonup> bytes option))) outcome" where
  "dumpFields E node [] out = Returns (Inr out)"
| "dumpFields E node (field # rest) out =
     (let parts = SplitN2 (FieldId field) (CHR ''.'') in
      case Fields node (FieldId field) of
        None \<Rightarrow> Panics ''nil pointer dereference''
      | Some f \<Rightarrow>
          (case MarshalDump E (Dump E f) of
             Inl err \<Rightarrow> Returns (Inl (Errorf ''Could not marshal field: '' err))
           | Inr dump \<Rightarrow>
               let grp = (case out (parts ! 0) of None \<Rightarrow> Map.empty | Some g \<Rightarrow> g) in
               if length parts < 2 then Panics ''index out of range''
               else dumpFields E node rest
                      (out(parts ! 0 \<mapsto> grp(parts ! 1 \<mapsto> Some dump)))))"

text \<open>
  The first half of the body of \<open>nodeToData\<close>, after the clearing of the path: it builds
  the envelope \<open>outNode\<close>. \<open>node\<close> is the node with its path already cleared.
\<close>

definition nodeToJSON :: "('f, 'd) env \<Rightarrow> 'f Node \<Rightarrow> (error + 'f nodeJSON) outcome" where
  "nodeToJSON E node =
     (case Type node of
        None \<Rightarrow> Panics ''nil pointer dereference''
      | Some ty \<Rightarrow>
          (case dumpFields E node (TypeFields ty @ LocalFields node) Map.empty of
             Panics p \<Rightarrow> Panics p
           | Returns (Inl err) \<Rightarrow> Returns (Inl err)
           | Returns (Inr fs) \<Rightarrow>
               Returns (Inr \<lparr>nodeJSON_Node = node, nodeJSON_Type = TypeId ty,
                             nodeJSON_Fields = fs\<rparr>)))"

text \<open>The second half: the envelope is marshalled, indented or not.\<close>

definition nodeToData_body ::
  "('f, 'd) env \<Rightarrow> 'f Node \<Rightarrow> bool \<Rightarrow> (error + bytes) outcome" where
  "nodeToData_body E node indent =
     (case nodeToJSON E node of
        Panics p \<Rightarrow> Panics p
      | Returns (Inl err) \<Rightarrow> Returns (Inl err)
      | Returns (Inr outNode) \<Rightarrow>
          (case MarshalNode E indent outNode of
             Inl err \<Rightarrow> Returns (Inl (Errorf ''service: Could not marshal node: '' err))
           | Inr data \<Rightarrow> Returns (Inr data)))"

text \<open>
  \<open>nodeToData\<close> works on the caller's node through a pointer: it returns its result
  together with the node as the call leaves it. The deferred function runs on every
  exit, a panic included.
\<close>

definition nodeToData ::
  "('f, 'd) env \<Rightarrow> 'f Node \<Rightarrow> bool \<Rightarrow> (error + bytes) outcome \<times> 'f Node" where
  "nodeToData E node indent =
     (let path = Path node;
          node1 = node\<lparr>Path := ''''\<rparr>;
          result = nodeToData_body E node1 indent
      in (result, node1\<lparr>Path := path\<rparr>))"

text \<open>
  Modelled from the spec: \<open>Node.InitFields\<close>, which is not among the source files:
  it initializes an empty field object for every declared field and local field, and
  can fail. The node type pointer is dereferenced.
\<close>

fun initFields ::
  "('f, 'd) env \<Rightarrow> FieldType list \<Rightarrow> (string \<rightharpoonup> 'f) \<Rightarrow> error + (string \<rightharpoonup> 'f)" where
  "initFields E [] fs = Inr fs"
| "initFields E (field # rest) fs =
     (case NewField E field of
        Inl err \<Rightarrow> Inl err
      | Inr f \<Rightarrow> initFields E rest (fs(FieldId field \<mapsto> f)))"

definition InitFields :: "('f, 'd) env \<Rightarrow> 'f Node \<Rightarrow> (error option \<times> 'f Node) outcome" where
  "InitFields E node =
     (case Type node of
        None \<Rightarrow> Panics ''nil pointer dereference''
      | Some ty \<Rightarrow>
          (case initFields E (TypeFields ty @ LocalFields node) Map.empty of
             Inl err \<Rightarrow> Returns (Some err, node)
           | Inr fs \<Rightarrow> Returns (None, node\<lparr>Fields := fs\<rparr>)))"

text \<open>
  \<open>node.Fields[group][name]\<close>: reading a missing key of a Go map (a nil map included)
  gives the zero value, here the nil pointer.
\<close>

definition rawValue ::
  "(string \<rightharpoonup> (string \<rightharpoonup> bytes option)) \<Rightarrow> string \<Rightarrow> string \<Rightarrow> bytes option" where
  "rawValue raw grp name =
     (case raw grp of
        None \<Rightarrow> None
      | Some g \<Rightarrow> (case g name of None \<Rightarrow> None | Some p \<Rightarrow> p))"

text \<open>
  The loop of \<open>dataToNode\<close>. \<open>parts[1]\<close> panics when the id has no dot; \<open>Load\<close> is
  called only where the raw value is not nil, and the error it returns is dropped.
\<close>

fun loadFields ::
  "('f, 'd) env \<Rightarrow> (string \<rightharpoonup> (string \<rightharpoonup> bytes option)) \<Rightarrow> FieldType list
     \<Rightarrow> (string \<rightharpoonup> 'f) \<Rightarrow> (string \<rightharpoonup> 'f) outcome" where
  "loadFields E raw [] fs = Returns fs"
| "loadFields E raw (field # rest) fs =
     (let parts = SplitN2 (FieldId field) (CHR ''.'') in
      if length parts < 2 then Panics ''index out of range''
      else
        case rawValue raw (parts ! 0) (parts ! 1) of
          None \<Rightarrow> loadFields E raw rest fs
        | Some v \<Rightarrow>
            (case fs (FieldId field) of
               None \<Rightarrow> Panics ''nil pointer dereference''
             | Some f \<Rightarrow> loadFields E raw rest (fs(FieldId field \<mapsto> snd (Load E f v)))))"

text \<open>
  \<open>dataToNode\<close>. The type resolver is a callback that may perform I/O: it is a
  transition of a state \<open>'w\<close>. The result is Go's pair: \<open>Inr None\<close> is \<open>(nil, nil)\<close>.
  The client and the site are only handed on to \<open>InitFields\<close>. In the message of the
  resolver's error the type id stands without the quotes of \<open>%q\<close>.
\<close>

definition dataToNode ::
  "('f, 'd) env \<Rightarrow> (string \<Rightarrow> 'w \<Rightarrow> (error + NodeType option) \<times> 'w) \<Rightarrow> bytes \<Rightarrow> 'w
     \<Rightarrow> (error + 'f Node option) outcome \<times> 'w" where
  "dataToNode E getNodeType data w =
     (if length data = 0 then (Returns (Inr None), w)
      else
        case UnmarshalNode E data of
          Inl err \<Rightarrow> (Returns (Inl (Errorf ''service: Could not unmarshal node: '' err)), w)
        | Inr node \<Rightarrow>
            (case getNodeType (nodeJSON_Type node) w of
               (Inl err, w1) \<Rightarrow>
                 (Returns (Inl (Errorf (''Could not get node type '' @ nodeJSON_Type node @ '': '')
                                  err)), w1)
             | (Inr ty, w1) \<Rightarrow>
                 (case InitFields E ((nodeJSON_Node node)\<lparr>Type := ty\<rparr>) of
                    Panics p \<Rightarrow> (Panics p, w1)
                  | Returns (Some err, ret) \<Rightarrow>
                      (Returns (Inl (Errorf ''Could not init node fields: '' err)), w1)
                  | Returns (None, ret) \<Rightarrow>
                      (case Type ret of
                         None \<Rightarrow> (Panics ''nil pointer dereference'', w1)
                       | Some rty \<Rightarrow>
                           (case loadFields E (nodeJSON_Fields node)
                                   (TypeFields rty @ LocalFields ret) (Fields ret) of
                              Panics p \<Rightarrow> (Panics p, w1)
                            | Returns fs \<Rightarrow>
                                (Returns (Inr (Some (ret\<lparr>Fields := fs\<rparr>))), w1))))))"

section \<open>Operations built on the codec\<close>

text \<open>
  \<open>WriteNode\<close>. \<open>now\<close> is the reading of \<open>time.Now().UTC()\<close> at the call. The node is
  the caller's, reached through a pointer: the operation returns it as the call leaves it.
\<close>

definition WriteNode ::
  "'t rpc \<Rightarrow> ('f, 'd) env \<Rightarrow> time \<Rightarrow> string \<Rightarrow> string \<Rightarrow> 'f Node \<Rightarrow> ('t, 'h) MonstiClient
     \<Rightarrow> error option outcome \<times> 'f Node \<times> ('t, 'h) MonstiClient" where
  "WriteNode rpc E now site path node s =
     (case Error s of
        Some e \<Rightarrow> (Returns None, node, s)
      | None \<Rightarrow>
          (case nodeToData E (node\<lparr>Changed := now\<rparr>) True of
             (Panics p, node') \<Rightarrow> (Panics p, node', s)
           | (Returns (Inl err), node') \<Rightarrow>
               (Returns (Some (Errorf ''service: Could not convert node: '' err)), node', s)
           | (Returns (Inr data), node') \<Rightarrow>
               (case WriteNodeData rpc site path ''node.json'' data s of
                  (Some err, s') \<Rightarrow>
                    (Returns (Some (Errorf ''service: Could not write node: '' err)), node', s')
                | (None, s') \<Rightarrow> (Returns None, node', s'))))"

definition GetNode ::
  "'t rpc \<Rightarrow> ('f, 'd) env \<Rightarrow> string \<Rightarrow> string \<Rightarrow> ('t, 'h) MonstiClient
     \<Rightarrow> (error + 'f Node option) outcome \<times> ('t, 'h) MonstiClient" where
  "GetNode rpc E site path s =
     (case Error s of
        Some e \<Rightarrow> (Returns (Inr None), s)
      | None \<Rightarrow>
          (case callBytes rpc ''Monsti.GetNode'' (ArgsSitePath site path) (RPCClient s) of
             (Inl err, t) \<Rightarrow>
               (Returns (Inl (Errorf ''service: GetNode error: '' err)), s\<lparr>RPCClient := t\<rparr>)
           | (Inr reply, t) \<Rightarrow>
               (case dataToNode E (GetNodeType rpc) reply (s\<lparr>RPCClient := t\<rparr>) of
                  (Panics p, s') \<Rightarrow> (Panics p, s')
                | (Returns (Inl err), s') \<Rightarrow>
                    (Returns (Inl (Errorf ''service: Could not convert node: '' err)), s')
                | (Returns (Inr node), s') \<Rightarrow> (Returns (Inr node), s'))))"

text \<open>The loop of \<open>GetChildren\<close> over the entries of the reply.\<close>

fun convertEntries ::
  "('f, 'd) env \<Rightarrow> (string \<Rightarrow> 'w \<Rightarrow> (error + NodeType option) \<times> 'w) \<Rightarrow> bytes list
     \<Rightarrow> 'f Node option list \<Rightarrow> 'w \<Rightarrow> (error + 'f Node option list) outcome \<times> 'w" where
  "convertEntries E getNodeType [] nodes w = (Returns (Inr nodes), w)"
| "convertEntries E getNodeType (entry # rest) nodes w =
     (case dataToNode E getNodeType entry w of
        (Panics p, w') \<Rightarrow> (Panics p, w')
      | (Returns (Inl err), w') \<Rightarrow>
          (Returns (Inl (Errorf ''service: Could not convert node: '' err)), w')
      | (Returns (Inr node), w') \<Rightarrow> convertEntries E getNodeType rest (nodes @ [node]) w')"

definition GetChildren ::
  "'t rpc \<Rightarrow> ('f, 'd) env \<Rightarrow> string \<Rightarrow> string \<Rightarrow> ('t, 'h) MonstiClient
     \<Rightarrow> (error + 'f Node option list) outcome \<times> ('t, 'h) MonstiClient" where
  "GetChildren rpc E site path s =
     (case Error s of
        Some e \<Rightarrow> (Returns (Inl e), s)
      | None \<Rightarrow>
          (case callBytesList rpc ''Monsti.GetChildren'' (ArgsSitePath site path) (RPCClient s) of
             (Inl err, t) \<Rightarrow>
               (Returns (Inl (Errorf ''service: GetChildren error: '' err)), s\<lparr>RPCClient := t\<rparr>)
           | (Inr reply, t) \<Rightarrow>
               convertEntries E (GetNodeType rpc) reply [] (s\<lparr>RPCClient := t\<rparr>)))"

section \<open>Site configuration\<close>

text \<open>
  \<open>getConfig\<close>. \<open>unmarshal\<close> is \<open>json.Unmarshal\<close> into a fresh map from strings to
  pointers of the type of \<open>out\<close>; the decoded map is given as the list of its entries in
  the order \<open>MapKeys\<close> enumerates them, a nil pointer being \<open>None\<close>. \<open>out\<close> is the
  variable the caller passes; the operation returns its value after the call.
\<close>

definition getConfig ::
  "(bytes \<Rightarrow> error + (string \<times> 'v option) list) \<Rightarrow> bytes \<Rightarrow> 'v
     \<Rightarrow> (error option \<times> 'v) outcome" where
  "getConfig unmarshal reply out =
     (if length reply = 0 then Returns (None, out)
      else
        case unmarshal reply of
          Inl err \<Rightarrow> Returns (Some (Errorf ''service: Could not decode configuration: '' err), out)
        | Inr object \<Rightarrow>
            (case object of
               [] \<Rightarrow> Panics ''index out of range''
             | (key, value) # others \<Rightarrow>
                 (case value of
                    None \<Rightarrow> Returns (None, out)
                  | Some v \<Rightarrow> Returns (None, v))))"

definition GetSiteConfig ::
  "'t rpc \<Rightarrow> (bytes \<Rightarrow> error + (string \<times> 'v option) list) \<Rightarrow> string \<Rightarrow> string \<Rightarrow> 'v
     \<Rightarrow> ('t, 'h) MonstiClient \<Rightarrow> (error option \<times> 'v) outcome \<times> ('t, 'h) MonstiClient" where
  "GetSiteConfig rpc unmarshal site name out s =
     (case Error s of
        Some e \<Rightarrow> (Returns (Some e, out), s)
      | None \<Rightarrow>
          (case callBytes rpc ''Monsti.GetSiteConfig'' (ArgsSiteName site name) (RPCClient s) of
             (Inl err, t) \<Rightarrow>
               (Returns (Some (Errorf ''service: GetSiteConfig error: '' err), out),
                s\<lparr>RPCClient := t\<rparr>)
           | (Inr reply, t) \<Rightarrow> (getConfig unmarshal reply out, s\<lparr>RPCClient := t\<rparr>)))"

section \<open>Signals\<close>

text \<open>
  A signal handler is a Go function from the decoded argument to a value and an error.
  It runs arbitrary code: it is a transition of a state \<open>'w\<close> of the surrounding
  program, so that a handler that is invoked leaves its trace there; the calls that
  \<open>WaitSignal\<close> itself makes are the transitions of the connection.
  \<open>SignalHandlers[name]\<close> of an unregistered name is the nil function.

  \<open>gobDecode\<close> and \<open>gobEncode\<close> are \<open>encoding/gob\<close> on the wrapped argument and the
  wrapped return value.
\<close>

type_synonym ('a, 'r, 'w) handler = "'a \<Rightarrow> 'w \<Rightarrow> ('r \<times> error option) \<times> 'w"

definition WaitSignal ::
  "'t rpc \<Rightarrow> (bytes \<Rightarrow> error + 'a) \<Rightarrow> ('r \<Rightarrow> error + bytes)
     \<Rightarrow> ('t, ('a, 'r, 'w) handler) MonstiClient \<Rightarrow> 'w
     \<Rightarrow> error option outcome \<times> ('t, ('a, 'r, 'w) handler) MonstiClient \<times> 'w" where
  "WaitSignal rpc gobDecode gobEncode s w =
     (case Error s of
        Some e \<Rightarrow> (Returns (Some e), s, w)
      | None \<Rightarrow>
          (case callSignal rpc ''Monsti.WaitSignal'' (ArgString (ClientId s)) (RPCClient s) of
             (Inl err, t) \<Rightarrow>
               (Returns (Some (Errorf ''service: Monsti.WaitSignal error: '' err)),
                s\<lparr>RPCClient := t\<rparr>, w)
           | (Inr (signalName, signalArgs), t) \<Rightarrow>
               (case gobDecode signalArgs of
                  Inl err \<Rightarrow>
                    (Returns (Some (Errorf ''service: Could not decode signal argumens: '' err)),
                     s\<lparr>RPCClient := t\<rparr>, w)
                | Inr wrap \<Rightarrow>
                    (case SignalHandlers s signalName of
                       None \<Rightarrow> (Panics ''nil pointer dereference'', s\<lparr>RPCClient := t\<rparr>, w)
                     | Some handle \<Rightarrow>
                         (case handle wrap w of
                            ((ret, Some err), w') \<Rightarrow>
                              (Returns (Some (Errorf (''service: Signal handler for '' @ signalName
                                                        @ '' returned error: '') err)),
                               s\<lparr>RPCClient := t\<rparr>, w')
                          | ((ret, None), w') \<Rightarrow>
                              (case gobEncode ret of
                                 Inl err \<Rightarrow>
                                   (Returns (Some (Errorf
                                      ''service: Could not encode signal return value: '' err)),
                                    s\<lparr>RPCClient := t\<rparr>, w')
                               | Inr buffer \<Rightarrow>
                                   (case callInt rpc ''Monsti.FinishSignal''
                                           (ArgsIdRet (ClientId s) buffer) t of
                                      (Inl err, t') \<Rightarrow>
                                        (Returns (Some (Errorf
                                           ''service: Monsti.FinishSignal error: '' err)),
                                         s\<lparr>RPCClient := t'\<rparr>, w')
                                    | (Inr x, t') \<Rightarrow>
                                        (Returns None, s\<lparr>RPCClient := t'\<rparr>, w'))))))))"

section \<open>Concrete instances\<close>

text \<open>
  A transport stub that records every call it is asked to make and answers from a fixed
  table, and two clients on it: one whose connection attempt failed, one that is open.
\<close>

definition recordingRpc ::
  "(string \<Rightarrow> rpc_args \<Rightarrow> error + rpc_reply) \<Rightarrow> (string \<times> rpc_args) list rpc" where
  "recordingRpc respond name args log = (respond name args, log @ [(name, args)])"

definition exampleRequest :: Request where
  "exampleRequest =
     \<lparr>ReqId = 7, NodePath = ''/about'', Site = ''example'', Query = Map.empty, Method = 0,
      Session = Some \<lparr>SessionUser = None, Locale = ''en''\<rparr>, Action = 1,
      FormData = Map.empty\<rparr>"

definition brokerStub :: "string \<Rightarrow> rpc_args \<Rightarrow> error + rpc_reply" where
  "brokerStub name args =
     (if name = ''Monsti.GetRequest'' then Inr (ReplyRequest exampleRequest)
      else if name = ''Monsti.GetNode'' then Inr (ReplyBytes [])
      else if name = ''Monsti.GetSiteConfig'' then Inr (ReplyBytes ''{}'')
      else if name = ''Monsti.WaitSignal'' then Inr (ReplySignal ''beforeSave'' ''/x'')
      else Inr (ReplyInt 0))"

definition failedClient :: "((string \<times> rpc_args) list, 'h) MonstiClient" where
  "failedClient =
     \<lparr>Error = Some (ErrMsg ''dial unix: connection refused''), ClientId = ''worker'',
      RPCClient = [], SignalHandlers = Map.empty\<rparr>"

definition openClient ::
  "(string \<rightharpoonup> 'h) \<Rightarrow> ((string \<times> rpc_args) list, 'h) MonstiClient" where
  "openClient handlers =
     \<lparr>Error = None, ClientId = ''worker'', RPCClient = [], SignalHandlers = handlers\<rparr>"

text \<open>
  Signal handlers over a counter of invocations: one that answers, one that fails.
  The gob codec of their byte-string arguments and results is the identity.
\<close>

definition answeringHandler :: "(bytes, bytes, nat) handler" where
  "answeringHandler arg n = ((''seen '' @ arg, None), Suc n)"

definition failingHandler :: "(bytes, bytes, nat) handler" where
  "failingHandler arg n = (([], Some (ErrMsg ''handler failed'')), Suc n)"

definition gobIdentity :: "bytes \<Rightarrow> error + bytes" where
  "gobIdentity b = Inr b"

text \<open>
  The node of the example scenario: type \<open>page\<close> with the text fields \<open>core.title\<close> and
  \<open>core.body\<close>, at \<open>/about\<close>. A text field is its string; its dump is the string, its raw
  dump the string again, and loading overwrites the field with the raw value.
  The JSON stub knows one document: the envelope of this node.
\<close>

definition pageType :: NodeType where
  "pageType =
     \<lparr>TypeId = ''page'',
      TypeFields = [\<lparr>FieldId = ''core.title'', FieldKind = ''Text''\<rparr>,
                    \<lparr>FieldId = ''core.body'', FieldKind = ''Text''\<rparr>]\<rparr>"

definition aboutNode :: "string Node" where
  "aboutNode =
     \<lparr>Path = ''/about'', Type = Some pageType, Changed = 1400000000,
      Fields = [''core.title'' \<mapsto> ''About Us'', ''core.body'' \<mapsto> ''Hello''],
      LocalFields = []\<rparr>"

definition aboutDecoded :: "string nodeJSON" where
  "aboutDecoded =
     \<lparr>nodeJSON_Node = \<lparr>Path = '''', Type = None, Changed = 1400000000, Fields = Map.empty,
                        LocalFields = []\<rparr>,
      nodeJSON_Type = ''page'',
      nodeJSON_Fields = [''core'' \<mapsto> [''title'' \<mapsto> Some ''About Us'', ''body'' \<mapsto> Some ''Hello'']]\<rparr>"

definition titleOnlyDecoded :: "string nodeJSON" where
  "titleOnlyDecoded =
     \<lparr>nodeJSON_Node = \<lparr>Path = '''', Type = None, Changed = 1400000000, Fields = Map.empty,
                        LocalFields = []\<rparr>,
      nodeJSON_Type = ''page'',
      nodeJSON_Fields = [''core'' \<mapsto> [''title'' \<mapsto> Some ''About Us'']]\<rparr>"

definition textEnv :: "(string, string) env" where
  "textEnv =
     \<lparr>Dump = (\<lambda>f. f),
      Load = (\<lambda>f raw. (None, raw)),
      NewField = (\<lambda>field. Inr ''''),
      MarshalDump = (\<lambda>d. Inr d),
      MarshalNode = (\<lambda>indent outNode. Inr ''{about}''),
      UnmarshalNode = (\<lambda>data. if data = ''{about}'' then Inr aboutDecoded
                               else if data = ''{title}'' then Inr titleOnlyDecoded
                               else Inl (ErrMsg ''invalid character''))\<rparr>"

definition pageResolver :: "string \<Rightarrow> nat \<Rightarrow> (error + NodeType option) \<times> nat" where
  "pageResolver typeId n =
     (if typeId = ''page'' then (Inr (Some pageType), Suc n)
      else (Inl (ErrMsg ''unknown node type''), Suc n))"

text \<open>A JSON stub for configurations that knows one document, the empty object.\<close>

definition unmarshalConfig :: "bytes \<Rightarrow> error + (string \<times> int option) list" where
  "unmarshalConfig reply =
     (if reply = ''{}'' then Inr [] else Inl (ErrMsg ''unexpected end of JSON input''))"

text \<open>
  What the JSON document of an envelope carries: the type id, the raw dumps, and the
  attributes of the embedded node other than its type pointer and its field objects, in
  whose place the document has the keys \<open>Type\<close> and \<open>Fields\<close> of the envelope.
\<close>

definition samePayload :: "'f nodeJSON \<Rightarrow> 'f nodeJSON \<Rightarrow> bool" where
  "samePayload a b =
     (nodeJSON_Type a = nodeJSON_Type b
      \<and> nodeJSON_Fields a = nodeJSON_Fields b
      \<and> Path (nodeJSON_Node a) = Path (nodeJSON_Node b)
      \<and> Changed (nodeJSON_Node a) = Changed (nodeJSON_Node b)
      \<and> LocalFields (nodeJSON_Node a) = LocalFields (nodeJSON_Node b))"

section \<open>Facts about the helpers\<close>

lemma snd_callInt: "snd (callInt rpc name args t) = snd (rpc name args t)"
  by (simp add: callInt_def split: prod.splits sum.splits rpc_reply.splits)

lemma WriteNodeData_open:
  "Error s = None \<Longrightarrow>
   snd (WriteNodeData rpc site path file content s)
     = s\<lparr>RPCClient := snd (rpc ''Monsti.WriteNodeData''
                               (ArgsSitePathFileContent site path file content) (RPCClient s))\<rparr>"
  using snd_callInt [of rpc "''Monsti.WriteNodeData''"
          "ArgsSitePathFileContent site path file content" "RPCClient s"]
  by (auto simp: WriteNodeData_def split: prod.splits sum.splits)

lemma nodeToJSON_node:
  "nodeToJSON E node = Returns (Inr outNode) \<Longrightarrow> nodeJSON_Node outNode = node"
  by (auto simp: nodeToJSON_def split: option.splits outcome.splits sum.splits)

text \<open>An id with a dot splits into its group and the rest, and is their join.\<close>

lemma SplitN2_dotted:
  assumes "sep \<in> set s"
  shows "\<exists>g n. SplitN2 s sep = [g, n] \<and> s = g @ sep # n"
proof -
  let ?g = "takeWhile (\<lambda>c. c \<noteq> sep) s" and ?d = "dropWhile (\<lambda>c. c \<noteq> sep) s"
  from assms have ne: "?d \<noteq> []" by auto
  have "hd ?d = sep" using hd_dropWhile [OF ne] by simp
  with ne have "?d = sep # tl ?d" by (cases ?d) auto
  then have "s = ?g @ sep # tl ?d" using takeWhile_dropWhile_id [of "\<lambda>c. c \<noteq> sep" s] by simp
  with assms show ?thesis by (auto simp: SplitN2_def)
qed

lemma SplitN2_inj:
  assumes "SplitN2 a sep = [g, n]" and "SplitN2 b sep = [g, n]"
  shows "a = b"
proof -
  have da: "sep \<in> set a" using assms(1) by (auto simp: SplitN2_def split: if_splits)
  have db: "sep \<in> set b" using assms(2) by (auto simp: SplitN2_def split: if_splits)
  from SplitN2_dotted [OF da] SplitN2_dotted [OF db] assms show ?thesis by auto
qed

lemma rawValue_update:
  "rawValue (out(g0 \<mapsto> (case out g0 of None \<Rightarrow> Map.empty | Some x \<Rightarrow> x)(m0 \<mapsto> Some dump))) g m
     = (if g = g0 \<and> m = m0 then Some dump else rawValue out g m)"
  by (auto simp: rawValue_def split: option.splits)

lemma initFields_dom:
  "initFields E flds fs0 = Inr fs \<Longrightarrow> dom fs = dom fs0 \<union> FieldId ` set flds"
  by (induction flds arbitrary: fs0) (auto split: sum.splits)

text \<open>
  The decoding loop over fields that all have a value object and a dotted id: it returns,
  and a field whose raw dump is missing is not touched.
\<close>

lemma loadFields_omitted:
  assumes "list_all (\<lambda>field. CHR ''.'' \<in> set (FieldId field)) flds"
    and "FieldId ` set flds \<subseteq> dom fs"
  shows "\<exists>fs'. loadFields E raw flds fs = Returns fs' \<and> dom fs' = dom fs
           \<and> (\<forall>fid g m. SplitN2 fid (CHR ''.'') = [g, m] \<longrightarrow> rawValue raw g m = None
                 \<longrightarrow> fs' fid = fs fid)"
  using assms
proof (induction flds arbitrary: fs)
  case Nil
  then show ?case by simp
next
  case (Cons field rest)
  from Cons.prems obtain g0 m0 where parts: "SplitN2 (FieldId field) (CHR ''.'') = [g0, m0]"
    using SplitN2_dotted [of "CHR ''.''" "FieldId field"] by auto
  from Cons.prems obtain f where f: "fs (FieldId field) = Some f" by auto
  show ?case
  proof (cases "rawValue raw g0 m0")
    case None
    with Cons parts show ?thesis by simp
  next
    case (Some v)
    let ?fs1 = "fs(FieldId field \<mapsto> snd (Load E f v))"
    have d1: "dom ?fs1 = dom fs" using f by auto
    from Cons.prems d1 have sub: "FieldId ` set rest \<subseteq> dom ?fs1" by auto
    from Cons.prems have dr: "list_all (\<lambda>field. CHR ''.'' \<in> set (FieldId field)) rest" by simp
    from Cons.IH [OF dr sub] obtain fs' where
      r: "loadFields E raw rest ?fs1 = Returns fs'" "dom fs' = dom ?fs1"
         "\<forall>fid g m. SplitN2 fid (CHR ''.'') = [g, m] \<longrightarrow> rawValue raw g m = None
                 \<longrightarrow> fs' fid = ?fs1 fid"
      by blast
    have "\<forall>fid g m. SplitN2 fid (CHR ''.'') = [g, m] \<longrightarrow> rawValue raw g m = None
                 \<longrightarrow> fs' fid = fs fid"
    proof (intro allI impI)
      fix fid g m
      assume a: "SplitN2 fid (CHR ''.'') = [g, m]" "rawValue raw g m = None"
      then have "fid \<noteq> FieldId field" using parts Some by auto
      with r(3) a show "fs' fid = fs fid" by auto
    qed
    with r d1 parts Some f show ?thesis by simp
  qed
qed

text \<open>
  The encoding loop over fields that all have a value object whose dump marshals and a
  dotted id: it returns, and the raw dump of each field is found under its group and name.
\<close>

lemma dumpFields_result:
  assumes "\<forall>field\<in>set flds. CHR ''.'' \<in> set (FieldId field)
             \<and> (\<exists>f. Fields node (FieldId field) = Some f
                    \<and> MarshalDump E (Dump E f) = Inr (r (FieldId field)))"
    and "\<forall>field\<in>S. \<forall>g m. SplitN2 (FieldId field) (CHR ''.'') = [g, m]
             \<longrightarrow> rawValue out g m = Some (r (FieldId field))"
  shows "\<exists>out'. dumpFields E node flds out = Returns (Inr out')
           \<and> (\<forall>field\<in>S \<union> set flds. \<forall>g m. SplitN2 (FieldId field) (CHR ''.'') = [g, m]
                 \<longrightarrow> rawValue out' g m = Some (r (FieldId field)))"
  using assms
proof (induction flds arbitrary: out S)
  case Nil
  then show ?case by simp
next
  case (Cons field rest)
  from Cons.prems(1) obtain g0 m0 where parts: "SplitN2 (FieldId field) (CHR ''.'') = [g0, m0]"
    using SplitN2_dotted [of "CHR ''.''" "FieldId field"] by auto
  from Cons.prems(1) obtain f where f: "Fields node (FieldId field) = Some f"
    and dump: "MarshalDump E (Dump E f) = Inr (r (FieldId field))" by auto
  let ?out1 = "out(g0 \<mapsto> (case out g0 of None \<Rightarrow> Map.empty | Some x \<Rightarrow> x)
                            (m0 \<mapsto> Some (r (FieldId field))))"
  have step: "dumpFields E node (field # rest) out = dumpFields E node rest ?out1"
    using parts f dump by simp
  have inv1: "\<forall>field'\<in>insert field S. \<forall>g m. SplitN2 (FieldId field') (CHR ''.'') = [g, m]
                \<longrightarrow> rawValue ?out1 g m = Some (r (FieldId field'))"
  proof (intro ballI allI impI)
    fix field' g m
    assume mem: "field' \<in> insert field S"
      and p: "SplitN2 (FieldId field') (CHR ''.'') = [g, m]"
    show "rawValue ?out1 g m = Some (r (FieldId field'))"
    proof (cases "g = g0 \<and> m = m0")
      case True
      with p parts have "FieldId field' = FieldId field" by (auto intro: SplitN2_inj)
      with True show ?thesis by (simp add: rawValue_update)
    next
      case False
      with p parts have "field' \<noteq> field" by auto
      with mem have "field' \<in> S" by simp
      with Cons.prems(2) p have "rawValue out g m = Some (r (FieldId field'))" by blast
      with False show ?thesis by (auto simp: rawValue_update)
    qed
  qed
  from Cons.prems(1) have rest: "\<forall>field\<in>set rest. CHR ''.'' \<in> set (FieldId field)
             \<and> (\<exists>f. Fields node (FieldId field) = Some f
                    \<and> MarshalDump E (Dump E f) = Inr (r (FieldId field)))" by simp
  from Cons.IH [OF rest inv1] obtain out' where
    a: "dumpFields E node rest ?out1 = Returns (Inr out')"
    and b: "\<forall>field'\<in>insert field S \<union> set rest. \<forall>g m.
              SplitN2 (FieldId field') (CHR ''.'') = [g, m]
              \<longrightarrow> rawValue out' g m = Some (r (FieldId field'))"
    by blast
  from step a have "dumpFields E node (field # rest) out = Returns (Inr out')" by (simp only:)
  moreover from b have "\<forall>field'\<in>S \<union> set (field # rest). \<forall>g m.
              SplitN2 (FieldId field') (CHR ''.'') = [g, m]
              \<longrightarrow> rawValue out' g m = Some (r (FieldId field'))"
    by simp
  ultimately show ?case by blast
qed

text \<open>Fresh fields for distinct ids: each id gets the fresh field of its descriptor.\<close>

lemma initFields_result:
  assumes "\<forall>field\<in>set flds. NewField E field = Inr (dflt field)"
    and "distinct (map FieldId flds)"
  shows "\<exists>fs'. initFields E flds fs = Inr fs'
           \<and> (\<forall>field\<in>set flds. fs' (FieldId field) = Some (dflt field))
           \<and> (\<forall>k. k \<notin> FieldId ` set flds \<longrightarrow> fs' k = fs k)"
  using assms
proof (induction flds arbitrary: fs)
  case Nil
  then show ?case by simp
next
  case (Cons field rest)
  let ?fs1 = "fs(FieldId field \<mapsto> dflt field)"
  from Cons.prems have r1: "\<forall>field\<in>set rest. NewField E field = Inr (dflt field)"
    and r2: "distinct (map FieldId rest)" and fresh: "FieldId field \<notin> FieldId ` set rest"
    by auto
  from Cons.IH [OF r1 r2, of ?fs1] obtain fs' where
    a: "initFields E rest ?fs1 = Inr fs'"
    and b: "\<forall>field\<in>set rest. fs' (FieldId field) = Some (dflt field)"
    and c: "\<forall>k. k \<notin> FieldId ` set rest \<longrightarrow> fs' k = ?fs1 k"
    by blast
  from Cons.prems a have "initFields E (field # rest) fs = Inr fs'" by simp
  moreover from b c fresh have "\<forall>field'\<in>set (field # rest). fs' (FieldId field') = Some (dflt field')"
    by auto
  moreover from c have "\<forall>k. k \<notin> FieldId ` set (field # rest) \<longrightarrow> fs' k = fs k" by auto
  ultimately show ?case by blast
qed

text \<open>
  The decoding loop over distinct ids whose raw dumps are all present: each field is
  loaded once, from its own raw dump.
\<close>

lemma loadFields_result:
  assumes "\<forall>field\<in>set flds. \<exists>g m. SplitN2 (FieldId field) (CHR ''.'') = [g, m]
             \<and> rawValue raw g m = Some (r (FieldId field))"
    and "distinct (map FieldId flds)"
    and "\<forall>field\<in>set flds. fs (FieldId field) = Some (dflt field)"
  shows "\<exists>fs'. loadFields E raw flds fs = Returns fs'
           \<and> (\<forall>field\<in>set flds.
                 fs' (FieldId field) = Some (snd (Load E (dflt field) (r (FieldId field)))))
           \<and> (\<forall>k. k \<notin> FieldId ` set flds \<longrightarrow> fs' k = fs k)"
  using assms
proof (induction flds arbitrary: fs)
  case Nil
  then show ?case by simp
next
  case (Cons field rest)
  from Cons.prems(1) obtain g0 m0 where parts: "SplitN2 (FieldId field) (CHR ''.'') = [g0, m0]"
    and raw: "rawValue raw g0 m0 = Some (r (FieldId field))" by auto
  from Cons.prems(3) have f: "fs (FieldId field) = Some (dflt field)" by simp
  let ?fs1 = "fs(FieldId field \<mapsto> snd (Load E (dflt field) (r (FieldId field))))"
  have step: "loadFields E raw (field # rest) fs = loadFields E raw rest ?fs1"
    using parts raw f by simp
  from Cons.prems have r1: "\<forall>field\<in>set rest. \<exists>g m. SplitN2 (FieldId field) (CHR ''.'') = [g, m]
             \<and> rawValue raw g m = Some (r (FieldId field))"
    and r2: "distinct (map FieldId rest)" and fresh: "FieldId field \<notin> FieldId ` set rest"
    by auto
  have r3: "\<forall>field\<in>set rest. ?fs1 (FieldId field) = Some (dflt field)"
  proof
    fix field' assume m: "field' \<in> set rest"
    with fresh have "FieldId field' \<noteq> FieldId field" by (metis image_eqI)
    with Cons.prems(3) m show "?fs1 (FieldId field') = Some (dflt field')" by simp
  qed
  from Cons.IH [OF r1 r2 r3] obtain fs' where
    a: "loadFields E raw rest ?fs1 = Returns fs'"
    and b: "\<forall>field\<in>set rest.
              fs' (FieldId field) = Some (snd (Load E (dflt field) (r (FieldId field))))"
    and c: "\<forall>k. k \<notin> FieldId ` set rest \<longrightarrow> fs' k = ?fs1 k"
    by blast
  from step a have "loadFields E raw (field # rest) fs = Returns fs'" by (simp only:)
  moreover from b c fresh have "\<forall>field'\<in>set (field # rest).
        fs' (FieldId field') = Some (snd (Load E (dflt field') (r (FieldId field'))))"
    by auto
  moreover from c have "\<forall>k. k \<notin> FieldId ` set (field # rest) \<longrightarrow> fs' k = fs k" by auto
  ultimately show ?case by blast
qed

section \<open>The sticky error\<close>

text \<open>
  On a client whose sticky error is set no modelled operation touches the transport: the
  client, connection included, comes back as it was, whatever the transport would do.
  \<open>ModuleInitDone\<close>, \<open>GetChildren\<close>, \<open>GetNodeData\<close>, \<open>GetSiteConfig\<close>, \<open>GetRequest\<close>,
  \<open>GetNodeType\<close> and \<open>WaitSignal\<close> return the stored error.
\<close>

lemma sticky_error_returned:
  "ModuleInitDone rpc module (s\<lparr>Error := Some e\<rparr>) = (Some e, s\<lparr>Error := Some e\<rparr>)"
  "GetChildren rpc E site path (s\<lparr>Error := Some e\<rparr>) = (Returns (Inl e), s\<lparr>Error := Some e\<rparr>)"
  "GetNodeData rpc site path file (s\<lparr>Error := Some e\<rparr>) = (Inl e, s\<lparr>Error := Some e\<rparr>)"
  "GetSiteConfig rpc unmarshal site name out (s\<lparr>Error := Some e\<rparr>)
     = (Returns (Some e, out), s\<lparr>Error := Some e\<rparr>)"
  "GetRequest rpc rid (s\<lparr>Error := Some e\<rparr>) = (Inl e, s\<lparr>Error := Some e\<rparr>)"
  "GetNodeType rpc typeId (s\<lparr>Error := Some e\<rparr>) = (Inl e, s\<lparr>Error := Some e\<rparr>)"
  "WaitSignal rpc dec enc (s'\<lparr>Error := Some e\<rparr>) w = (Returns (Some e), s'\<lparr>Error := Some e\<rparr>, w)"
  by (simp_all add: ModuleInitDone_def GetChildren_def GetNodeData_def GetSiteConfig_def
        GetRequest_def GetNodeType_def WaitSignal_def)

text \<open>
  \<open>WriteNode\<close>, \<open>GetNode\<close>, \<open>WriteNodeData\<close>, \<open>RemoveNode\<close> and \<open>RenameNode\<close> do not
  touch the transport either, but they return \<open>nil\<close> in place of the stored error.
\<close>

lemma sticky_error_dropped:
  "WriteNode rpc E now site path node (s\<lparr>Error := Some e\<rparr>)
     = (Returns None, node, s\<lparr>Error := Some e\<rparr>)"
  "GetNode rpc E site path (s\<lparr>Error := Some e\<rparr>) = (Returns (Inr None), s\<lparr>Error := Some e\<rparr>)"
  "WriteNodeData rpc site path file content (s\<lparr>Error := Some e\<rparr>)
     = (None, s\<lparr>Error := Some e\<rparr>)"
  "RemoveNode rpc site path (s\<lparr>Error := Some e\<rparr>) = (None, s\<lparr>Error := Some e\<rparr>)"
  "RenameNode rpc site path target (s\<lparr>Error := Some e\<rparr>) = (None, s\<lparr>Error := Some e\<rparr>)"
  by (simp_all add: WriteNode_def GetNode_def WriteNodeData_def RemoveNode_def RenameNode_def)

text \<open>
  Claim C1: on a client whose sticky error is set, every operation short-circuits without
  transport I/O and returns the stored error. The code at a failing input: \<open>WriteNode\<close> on
  the client whose connection was refused records no call, leaves the node alone, and
  returns \<open>nil\<close>, not the stored error.
\<close>

theorem WriteNode_failed_client:
  "WriteNode (recordingRpc brokerStub) textEnv 1400000500 ''example'' ''/about'' aboutNode
       (failedClient :: ((string \<times> rpc_args) list, unit) MonstiClient)
     = (Returns None, aboutNode, failedClient)"
  by (simp add: WriteNode_def failedClient_def)

section \<open>Encoding leaves the node as it was\<close>

text \<open>
  Claim C7: \<open>nodeToData\<close> never mutates the node observably: the path is cleared for the
  encode and restored before the function returns on every exit (success, error and
  panic), and nothing else of the node is modified: the node the call leaves behind is
  the node it was given, and the result is computed from the node with its path cleared.
\<close>

theorem nodeToData_restores_node:
  "snd (nodeToData E n indent) = n
   \<and> fst (nodeToData E n indent) = nodeToData_body E (n\<lparr>Path := ''''\<rparr>) indent"
  by (simp add: nodeToData_def Let_def)

section \<open>Requests\<close>

text \<open>
  Claim C8: on an open client whose call succeeds, \<open>GetRequest\<close> returns the decoded
  request when the reply carries the queried id, and \<open>(nil, nil)\<close> when it does not.
\<close>

theorem GetRequest_by_id:
  assumes "Error s = None"
    and "rpc ''Monsti.GetRequest'' (ArgUint rid) (RPCClient s) = (Inr (ReplyRequest req), t)"
  shows "GetRequest rpc rid s
           = (if ReqId req = rid then Inr (Some req) else Inr None, s\<lparr>RPCClient := t\<rparr>)"
  using assms by (simp add: GetRequest_def callRequest_def)

theorem GetRequest_by_id_witness:
  "GetRequest (recordingRpc brokerStub) 7 (openClient Map.empty)
     = (Inr (Some exampleRequest),
        (openClient Map.empty)\<lparr>RPCClient := [(''Monsti.GetRequest'', ArgUint 7)]\<rparr>)
   \<and> GetRequest (recordingRpc brokerStub) 8 (openClient Map.empty)
     = (Inr None, (openClient Map.empty)\<lparr>RPCClient := [(''Monsti.GetRequest'', ArgUint 8)]\<rparr>)"
  using GetRequest_by_id [of "openClient Map.empty" "recordingRpc brokerStub" 7 exampleRequest
          "[(''Monsti.GetRequest'', ArgUint 7)]"]
        GetRequest_by_id [of "openClient Map.empty" "recordingRpc brokerStub" 8 exampleRequest
          "[(''Monsti.GetRequest'', ArgUint 8)]"]
  by (simp add: openClient_def recordingRpc_def brokerStub_def exampleRequest_def)

section \<open>Decoding\<close>

text \<open>
  Claim C5: \<open>dataToNode\<close> on a zero-length input returns \<open>(nil, nil)\<close> whatever the type
  resolver is (which is not called: its state is unchanged), so \<open>GetNode\<close> on an open
  client whose call returns no data returns \<open>(nil, nil)\<close>.
\<close>

theorem empty_data_is_no_node:
  "dataToNode E getNodeType [] w = (Returns (Inr None), w)
   \<and> (Error s = None
        \<and> rpc ''Monsti.GetNode'' (ArgsSitePath site path) (RPCClient s) = (Inr (ReplyBytes []), t)
      \<longrightarrow> GetNode rpc E site path s = (Returns (Inr None), s\<lparr>RPCClient := t\<rparr>))"
  by (simp add: dataToNode_def GetNode_def callBytes_def)

theorem empty_data_is_no_node_witness:
  "dataToNode textEnv pageResolver [] (0::nat) = (Returns (Inr None), 0)
   \<and> Error (openClient Map.empty :: ((string \<times> rpc_args) list, unit) MonstiClient) = None
   \<and> recordingRpc brokerStub ''Monsti.GetNode'' (ArgsSitePath ''example'' ''/missing'') []
      = (Inr (ReplyBytes []), [(''Monsti.GetNode'', ArgsSitePath ''example'' ''/missing'')])
   \<and> GetNode (recordingRpc brokerStub) textEnv ''example'' ''/missing''
        (openClient Map.empty :: ((string \<times> rpc_args) list, unit) MonstiClient)
      = (Returns (Inr None),
         (openClient Map.empty)
           \<lparr>RPCClient := [(''Monsti.GetNode'', ArgsSitePath ''example'' ''/missing'')]\<rparr>)"
  using empty_data_is_no_node [of textEnv pageResolver "0::nat"
          "openClient Map.empty :: ((string \<times> rpc_args) list, unit) MonstiClient"
          "recordingRpc brokerStub" "''example''" "''/missing''"
          "[(''Monsti.GetNode'', ArgsSitePath ''example'' ''/missing'')]"]
  by (simp add: openClient_def recordingRpc_def brokerStub_def)

text \<open>
  Claim C6: when the envelope omits the raw dump of a declared field (its group is
  missing, its name is missing in the group, or the pointer is nil), \<open>dataToNode\<close>
  succeeds and the field is the one \<open>InitFields\<close> created. \<open>ret\<close> is the node as
  \<open>InitFields\<close> leaves it. The statement holds for every \<open>Load\<close>, also for one that
  changes every field it is called on: \<open>Load\<close> is not called on the omitted field.
  The ids of the declared fields have the form \<open><group>.<name>\<close>.
\<close>

theorem omitted_field_keeps_default:
  assumes nonempty: "data \<noteq> []"
    and decoded: "UnmarshalNode E data = Inr node"
    and resolved: "getNodeType (nodeJSON_Type node) w = (Inr (Some ty), w1)"
    and init: "InitFields E ((nodeJSON_Node node)\<lparr>Type := Some ty\<rparr>) = Returns (None, ret)"
    and dotted: "list_all (\<lambda>field. CHR ''.'' \<in> set (FieldId field))
                   (TypeFields ty @ LocalFields (nodeJSON_Node node))"
    and declared: "field \<in> set (TypeFields ty @ LocalFields (nodeJSON_Node node))"
    and parts: "SplitN2 (FieldId field) (CHR ''.'') = [grp, name]"
    and omitted: "rawValue (nodeJSON_Fields node) grp name = None"
  shows "\<exists>fs f. dataToNode E getNodeType data w
                  = (Returns (Inr (Some (ret\<lparr>Fields := fs\<rparr>))), w1)
               \<and> Fields ret (FieldId field) = Some f \<and> fs (FieldId field) = Some f"
proof -
  let ?flds = "TypeFields ty @ LocalFields (nodeJSON_Node node)"
  from init obtain fs0 where
    fs0: "initFields E ?flds Map.empty = Inr fs0"
    and ret: "ret = (nodeJSON_Node node)\<lparr>Type := Some ty, Fields := fs0\<rparr>"
    by (auto simp: InitFields_def split: sum.splits)
  from initFields_dom [OF fs0] have dom0: "FieldId ` set ?flds \<subseteq> dom fs0" by simp
  from loadFields_omitted [OF dotted dom0, of E "nodeJSON_Fields node"] obtain fs where
    load: "loadFields E (nodeJSON_Fields node) ?flds fs0 = Returns fs"
    and keep: "\<forall>fid g m. SplitN2 fid (CHR ''.'') = [g, m]
                 \<longrightarrow> rawValue (nodeJSON_Fields node) g m = None \<longrightarrow> fs fid = fs0 fid"
    by blast
  from dom0 declared obtain f where f: "fs0 (FieldId field) = Some f" by auto
  from keep parts omitted f have "fs (FieldId field) = Some f" by auto
  moreover have "dataToNode E getNodeType data w
                   = (Returns (Inr (Some (ret\<lparr>Fields := fs\<rparr>))), w1)"
    using nonempty decoded resolved init load ret by (simp add: dataToNode_def)
  moreover have "Fields ret (FieldId field) = Some f" using ret f by simp
  ultimately show ?thesis by blast
qed

theorem omitted_field_keeps_default_witness:
  "''{title}'' \<noteq> []
   \<and> UnmarshalNode textEnv ''{title}'' = Inr titleOnlyDecoded
   \<and> pageResolver (nodeJSON_Type titleOnlyDecoded) 0 = (Inr (Some pageType), 1)
   \<and> list_all (\<lambda>field. CHR ''.'' \<in> set (FieldId field))
        (TypeFields pageType @ LocalFields (nodeJSON_Node titleOnlyDecoded))
   \<and> \<lparr>FieldId = ''core.body'', FieldKind = ''Text''\<rparr>
        \<in> set (TypeFields pageType @ LocalFields (nodeJSON_Node titleOnlyDecoded))
   \<and> SplitN2 ''core.body'' (CHR ''.'') = [''core'', ''body'']
   \<and> rawValue (nodeJSON_Fields titleOnlyDecoded) ''core'' ''body'' = None
   \<and> (\<exists>fs. dataToNode textEnv pageResolver ''{title}'' 0
               = (Returns (Inr (Some
                    \<lparr>Path = '''', Type = Some pageType, Changed = 1400000000, Fields = fs,
                     LocalFields = []\<rparr>)), 1)
            \<and> fs ''core.body'' = Some '''' \<and> fs ''core.title'' = Some ''About Us'')"
proof -
  let ?ret = "\<lparr>Path = '''', Type = Some pageType, Changed = 1400000000,
               Fields = [''core.title'' \<mapsto> '''', ''core.body'' \<mapsto> ''''],
               LocalFields = []\<rparr> :: string Node"
  have h1: "''{title}'' \<noteq> []" by simp
  have h2: "UnmarshalNode textEnv ''{title}'' = Inr titleOnlyDecoded"
    by (simp add: textEnv_def)
  have h3: "pageResolver (nodeJSON_Type titleOnlyDecoded) 0 = (Inr (Some pageType), 1)"
    by (simp add: pageResolver_def titleOnlyDecoded_def)
  have h4: "InitFields textEnv ((nodeJSON_Node titleOnlyDecoded)\<lparr>Type := Some pageType\<rparr>)
              = Returns (None, ?ret)"
    by (simp add: InitFields_def titleOnlyDecoded_def pageType_def textEnv_def)
  have h5: "list_all (\<lambda>field. CHR ''.'' \<in> set (FieldId field))
              (TypeFields pageType @ LocalFields (nodeJSON_Node titleOnlyDecoded))"
    by (simp add: pageType_def titleOnlyDecoded_def)
  have h6: "\<lparr>FieldId = ''core.body'', FieldKind = ''Text''\<rparr>
              \<in> set (TypeFields pageType @ LocalFields (nodeJSON_Node titleOnlyDecoded))"
    by (simp add: pageType_def)
  have h7: "SplitN2 (FieldId \<lparr>FieldId = ''core.body'', FieldKind = ''Text''\<rparr>) (CHR ''.'')
              = [''core'', ''body'']"
    by (simp add: SplitN2_def)
  have h8: "rawValue (nodeJSON_Fields titleOnlyDecoded) ''core'' ''body'' = None"
    by (simp add: rawValue_def titleOnlyDecoded_def)
  have t: "dataToNode textEnv pageResolver ''{title}'' 0
             = (Returns (Inr (Some (?ret\<lparr>Fields :=
                  [''core.body'' \<mapsto> '''', ''core.title'' \<mapsto> ''About Us'']\<rparr>))), 1)"
    by (simp add: dataToNode_def textEnv_def pageResolver_def titleOnlyDecoded_def
          InitFields_def pageType_def SplitN2_def rawValue_def)
  from omitted_field_keeps_default [where data = "''{title}''" and E = textEnv
         and node = titleOnlyDecoded and getNodeType = pageResolver and w = 0 and ty = pageType
         and ?w1.0 = 1 and ret = ?ret and field = "\<lparr>FieldId = ''core.body'', FieldKind = ''Text''\<rparr>"
         and grp = "''core''" and name = "''body''", OF h1 h2 h3 h4 h5 h6 h7 h8] t
  have "\<exists>fs. dataToNode textEnv pageResolver ''{title}'' 0
               = (Returns (Inr (Some
                    \<lparr>Path = '''', Type = Some pageType, Changed = 1400000000, Fields = fs,
                     LocalFields = []\<rparr>)), 1)
            \<and> fs ''core.body'' = Some '''' \<and> fs ''core.title'' = Some ''About Us''"
    by auto
  with h1 h2 h3 h5 h6 h7 h8 show ?thesis by simp
qed

section \<open>The round trip\<close>

text \<open>
  Claim C2: for a node whose node type and field implementations are known, decoding the
  bytes that encoding produced, with a resolver that returns the node's type, gives back
  the node in every attribute and field except the path, which is not in the payload.

  The node is well-formed for its type: it has a type, the declared and local field ids
  are distinct and of the form \<open><group>.<name>\<close>, and it has a value object for exactly
  these ids. What the package does not define is assumed to do its part: for each field a
  fresh field can be made, the dump of the field marshals, and loading that raw dump into
  the fresh field gives the field back; marshalling the envelope gives a non-empty
  document, and unmarshalling it gives an envelope with the same payload.
\<close>

theorem decode_encode_roundtrip:
  fixes n :: "'f Node" and E :: "('f, 'd) env"
  assumes ty: "Type n = Some ty"
    and dotted: "list_all (\<lambda>field. CHR ''.'' \<in> set (FieldId field))
                   (TypeFields ty @ LocalFields n)"
    and dist: "distinct (map FieldId (TypeFields ty @ LocalFields n))"
    and dom: "dom (Fields n) = FieldId ` set (TypeFields ty @ LocalFields n)"
    and impl: "list_all
                 (\<lambda>field. case Fields n (FieldId field) of
                     None \<Rightarrow> False
                   | Some f \<Rightarrow>
                       (case (NewField E field, MarshalDump E (Dump E f)) of
                          (Inr fresh, Inr raw) \<Rightarrow> snd (Load E fresh raw) = f
                        | _ \<Rightarrow> False))
                 (TypeFields ty @ LocalFields n)"
    and json: "\<And>outNode. nodeToJSON E (n\<lparr>Path := ''''\<rparr>) = Returns (Inr outNode) \<Longrightarrow>
                 \<exists>data node. MarshalNode E indent outNode = Inr data \<and> data \<noteq> []
                    \<and> UnmarshalNode E data = Inr node \<and> samePayload node outNode"
    and resolver: "getNodeType (TypeId ty) w = (Inr (Some ty), w1)"
  shows "\<exists>data. nodeToData E n indent = (Returns (Inr data), n)
           \<and> dataToNode E getNodeType data w = (Returns (Inr (Some (n\<lparr>Path := ''''\<rparr>))), w1)"
proof -
  let ?flds = "TypeFields ty @ LocalFields n"
  let ?n0 = "n\<lparr>Path := ''''\<rparr>"
  define r where "r k = (case MarshalDump E (Dump E (the (Fields n k))) of Inr raw \<Rightarrow> raw)" for k
  define dflt where "dflt field = (case NewField E field of Inr fresh \<Rightarrow> fresh)" for field
  have each: "\<forall>field\<in>set ?flds. \<exists>f. Fields n (FieldId field) = Some f
                \<and> MarshalDump E (Dump E f) = Inr (r (FieldId field))
                \<and> NewField E field = Inr (dflt field)
                \<and> snd (Load E (dflt field) (r (FieldId field))) = f"
  proof
    fix field assume "field \<in> set ?flds"
    with impl have "case Fields n (FieldId field) of
                     None \<Rightarrow> False
                   | Some f \<Rightarrow>
                       (case (NewField E field, MarshalDump E (Dump E f)) of
                          (Inr fresh, Inr raw) \<Rightarrow> snd (Load E fresh raw) = f
                        | _ \<Rightarrow> False)"
      by (simp add: list_all_iff)
    then show "\<exists>f. Fields n (FieldId field) = Some f
                \<and> MarshalDump E (Dump E f) = Inr (r (FieldId field))
                \<and> NewField E field = Inr (dflt field)
                \<and> snd (Load E (dflt field) (r (FieldId field))) = f"
      by (auto simp: r_def dflt_def split: option.splits sum.splits)
  qed
  from dotted have dots: "\<forall>field\<in>set ?flds. CHR ''.'' \<in> set (FieldId field)"
    by (simp add: list_all_iff)
  \<comment> \<open>encoding\<close>
  have enc_pre: "\<forall>field\<in>set ?flds. CHR ''.'' \<in> set (FieldId field)
             \<and> (\<exists>f. Fields ?n0 (FieldId field) = Some f
                    \<and> MarshalDump E (Dump E f) = Inr (r (FieldId field)))"
    using each dots by auto
  have inv0: "\<forall>field\<in>{}. \<forall>g m. SplitN2 (FieldId field) (CHR ''.'') = [g, m]
             \<longrightarrow> rawValue (Map.empty :: string \<rightharpoonup> (string \<rightharpoonup> bytes option)) g m
                   = Some (r (FieldId field))"
    by simp
  from dumpFields_result [OF enc_pre inv0] obtain raws where
    dump: "dumpFields E ?n0 ?flds Map.empty = Returns (Inr raws)"
    and raws: "\<forall>field\<in>set ?flds. \<forall>g m. SplitN2 (FieldId field) (CHR ''.'') = [g, m]
                 \<longrightarrow> rawValue raws g m = Some (r (FieldId field))"
    by auto
  let ?outNode = "\<lparr>nodeJSON_Node = ?n0, nodeJSON_Type = TypeId ty, nodeJSON_Fields = raws\<rparr>"
  have envelope: "nodeToJSON E ?n0 = Returns (Inr ?outNode)"
    using ty dump by (simp add: nodeToJSON_def)
  from json [OF envelope] obtain data node where
    marshal: "MarshalNode E indent ?outNode = Inr data" and nonempty: "data \<noteq> []"
    and unmarshal: "UnmarshalNode E data = Inr node" and same: "samePayload node ?outNode"
    by blast
  have enc: "nodeToData E n indent = (Returns (Inr data), n)"
    using envelope marshal by (simp add: nodeToData_def nodeToData_body_def Let_def)
  \<comment> \<open>decoding\<close>
  from same have jtype: "nodeJSON_Type node = TypeId ty"
    and jfields: "nodeJSON_Fields node = raws"
    and jpath: "Path (nodeJSON_Node node) = ''''"
    and jchanged: "Changed (nodeJSON_Node node) = Changed n"
    and jlocal: "LocalFields (nodeJSON_Node node) = LocalFields n"
    by (simp_all add: samePayload_def)
  from each have news: "\<forall>field\<in>set ?flds. NewField E field = Inr (dflt field)" by auto
  from initFields_result [OF news dist, of Map.empty] obtain fs0 where
    init: "initFields E ?flds Map.empty = Inr fs0"
    and fs0: "\<forall>field\<in>set ?flds. fs0 (FieldId field) = Some (dflt field)"
    and fs0_other: "\<forall>k. k \<notin> FieldId ` set ?flds \<longrightarrow> fs0 k = None"
    by auto
  have load_pre: "\<forall>field\<in>set ?flds. \<exists>g m. SplitN2 (FieldId field) (CHR ''.'') = [g, m]
             \<and> rawValue raws g m = Some (r (FieldId field))"
  proof
    fix field assume m: "field \<in> set ?flds"
    with dots obtain g k where "SplitN2 (FieldId field) (CHR ''.'') = [g, k]"
      using SplitN2_dotted [of "CHR ''.''" "FieldId field"] by blast
    with raws m show "\<exists>g m. SplitN2 (FieldId field) (CHR ''.'') = [g, m]
             \<and> rawValue raws g m = Some (r (FieldId field))" by blast
  qed
  from loadFields_result [OF load_pre dist fs0, of E] obtain fs where
    load: "loadFields E raws ?flds fs0 = Returns fs"
    and fs: "\<forall>field\<in>set ?flds.
               fs (FieldId field) = Some (snd (Load E (dflt field) (r (FieldId field))))"
    and fs_other: "\<forall>k. k \<notin> FieldId ` set ?flds \<longrightarrow> fs k = fs0 k"
    by blast
  have fields: "fs = Fields n"
  proof
    fix k
    show "fs k = Fields n k"
    proof (cases "k \<in> FieldId ` set ?flds")
      case True
      then obtain field where "field \<in> set ?flds" "k = FieldId field" by auto
      with fs each show ?thesis by auto
    next
      case False
      with fs_other fs0_other have "fs k = None" by simp
      moreover from False dom have "Fields n k = None" by auto
      ultimately show ?thesis by simp
    qed
  qed
  have initF: "InitFields E ((nodeJSON_Node node)\<lparr>Type := Some ty\<rparr>)
                 = Returns (None, (nodeJSON_Node node)\<lparr>Type := Some ty, Fields := fs0\<rparr>)"
    using init jlocal by (simp add: InitFields_def)
  have result: "(nodeJSON_Node node)\<lparr>Type := Some ty, Fields := fs\<rparr> = ?n0"
    using jpath jchanged jlocal fields ty by (cases n, cases "nodeJSON_Node node") simp
  have dec: "dataToNode E getNodeType data w = (Returns (Inr (Some ?n0)), w1)"
    using nonempty unmarshal jtype resolver initF jlocal jfields load result
    by (simp add: dataToNode_def)
  from enc dec show ?thesis by blast
qed

theorem decode_encode_roundtrip_witness:
  "Type aboutNode = Some pageType
   \<and> list_all (\<lambda>field. CHR ''.'' \<in> set (FieldId field)) (TypeFields pageType @ LocalFields aboutNode)
   \<and> distinct (map FieldId (TypeFields pageType @ LocalFields aboutNode))
   \<and> dom (Fields aboutNode) = FieldId ` set (TypeFields pageType @ LocalFields aboutNode)
   \<and> pageResolver (TypeId pageType) 0 = (Inr (Some pageType), 1)
   \<and> nodeToData textEnv aboutNode False = (Returns (Inr ''{about}''), aboutNode)
   \<and> UnmarshalNode textEnv ''{about}'' = Inr aboutDecoded
   \<and> dataToNode textEnv pageResolver ''{about}'' 0
       = (Returns (Inr (Some (aboutNode\<lparr>Path := ''''\<rparr>))), 1)"
proof -
  have ty: "Type aboutNode = Some pageType" by (simp add: aboutNode_def)
  have dotted: "list_all (\<lambda>field. CHR ''.'' \<in> set (FieldId field))
                  (TypeFields pageType @ LocalFields aboutNode)"
    by (simp add: aboutNode_def pageType_def)
  have dist: "distinct (map FieldId (TypeFields pageType @ LocalFields aboutNode))"
    by (simp add: aboutNode_def pageType_def)
  have dom: "dom (Fields aboutNode) = FieldId ` set (TypeFields pageType @ LocalFields aboutNode)"
    by (auto simp: aboutNode_def pageType_def)
  have impl: "list_all
                 (\<lambda>field. case Fields aboutNode (FieldId field) of
                     None \<Rightarrow> False
                   | Some f \<Rightarrow>
                       (case (NewField textEnv field, MarshalDump textEnv (Dump textEnv f)) of
                          (Inr fresh, Inr raw) \<Rightarrow> snd (Load textEnv fresh raw) = f
                        | _ \<Rightarrow> False))
                 (TypeFields pageType @ LocalFields aboutNode)"
    by (simp add: aboutNode_def pageType_def textEnv_def)
  have envelope: "nodeToJSON textEnv (aboutNode\<lparr>Path := ''''\<rparr>)
                    = Returns (Inr \<lparr>nodeJSON_Node = aboutNode\<lparr>Path := ''''\<rparr>,
                                    nodeJSON_Type = ''page'',
                                    nodeJSON_Fields = nodeJSON_Fields aboutDecoded\<rparr>)"
    by (simp add: nodeToJSON_def aboutNode_def pageType_def textEnv_def SplitN2_def
          aboutDecoded_def)
  have unm: "UnmarshalNode textEnv ''{about}'' = Inr aboutDecoded" by (simp add: textEnv_def)
  have json: "\<And>outNode. nodeToJSON textEnv (aboutNode\<lparr>Path := ''''\<rparr>) = Returns (Inr outNode) \<Longrightarrow>
                 \<exists>data node. MarshalNode textEnv False outNode = Inr data \<and> data \<noteq> []
                    \<and> UnmarshalNode textEnv data = Inr node \<and> samePayload node outNode"
  proof -
    fix outNode
    assume "nodeToJSON textEnv (aboutNode\<lparr>Path := ''''\<rparr>) = Returns (Inr outNode)"
    with envelope have o: "outNode = \<lparr>nodeJSON_Node = aboutNode\<lparr>Path := ''''\<rparr>,
                                    nodeJSON_Type = ''page'',
                                    nodeJSON_Fields = nodeJSON_Fields aboutDecoded\<rparr>" by simp
    have "MarshalNode textEnv False outNode = Inr ''{about}''" by (simp add: textEnv_def)
    moreover have "samePayload aboutDecoded outNode"
      by (simp add: o samePayload_def aboutDecoded_def aboutNode_def)
    ultimately show "\<exists>data node. MarshalNode textEnv False outNode = Inr data \<and> data \<noteq> []
                    \<and> UnmarshalNode textEnv data = Inr node \<and> samePayload node outNode"
      using unm by auto
  qed
  have resolver: "pageResolver (TypeId pageType) 0 = (Inr (Some pageType), 1)"
    by (simp add: pageResolver_def pageType_def)
  have enc: "nodeToData textEnv aboutNode False = (Returns (Inr ''{about}''), aboutNode)"
    using envelope by (simp add: nodeToData_def nodeToData_body_def Let_def textEnv_def aboutNode_def)
  from decode_encode_roundtrip [where n = aboutNode and ty = pageType and E = textEnv
         and indent = False and getNodeType = pageResolver and w = 0 and ?w1.0 = 1,
         OF ty dotted dist dom impl json resolver] enc
  have "dataToNode textEnv pageResolver ''{about}'' 0
          = (Returns (Inr (Some (aboutNode\<lparr>Path := ''''\<rparr>))), 1)"
    by auto
  with ty dotted dist dom resolver enc unm show ?thesis by simp
qed

section \<open>Writing a node\<close>

text \<open>
  Claim C10: on a client that is not in the sticky-error state, \<open>WriteNode\<close> sets the
  \<open>Changed\<close> attribute of the caller's node to the current time before it serializes it.
  After the call, on every exit, the node is the caller's node with \<open>Changed\<close> replaced
  and nothing else; the bytes handed to \<open>Monsti.WriteNodeData\<close> are the encoding of that
  node; and the envelope that is marshalled carries the write time.
\<close>

theorem WriteNode_stamps_Changed:
  assumes "Error s = None"
  shows "fst (snd (WriteNode rpc E now site path node s)) = node\<lparr>Changed := now\<rparr>
       \<and> (\<forall>data. fst (nodeToData E (node\<lparr>Changed := now\<rparr>) True) = Returns (Inr data)
            \<longrightarrow> snd (snd (WriteNode rpc E now site path node s))
                  = s\<lparr>RPCClient := snd (rpc ''Monsti.WriteNodeData''
                         (ArgsSitePathFileContent site path ''node.json'' data) (RPCClient s))\<rparr>)
       \<and> (\<forall>outNode. nodeToJSON E (node\<lparr>Changed := now, Path := ''''\<rparr>) = Returns (Inr outNode)
            \<longrightarrow> Changed (nodeJSON_Node outNode) = now)"
proof (intro conjI allI impI)
  have after: "snd (nodeToData E (node\<lparr>Changed := now\<rparr>) True) = node\<lparr>Changed := now\<rparr>"
    by (simp add: nodeToData_def Let_def)
  show "fst (snd (WriteNode rpc E now site path node s)) = node\<lparr>Changed := now\<rparr>"
    using assms after
    by (auto simp: WriteNode_def split: prod.splits outcome.splits sum.splits option.splits)
next
  fix data
  assume enc: "fst (nodeToData E (node\<lparr>Changed := now\<rparr>) True) = Returns (Inr data)"
  from WriteNodeData_open [OF assms, of rpc site path "''node.json''" data] enc assms
  show "snd (snd (WriteNode rpc E now site path node s))
          = s\<lparr>RPCClient := snd (rpc ''Monsti.WriteNodeData''
                 (ArgsSitePathFileContent site path ''node.json'' data) (RPCClient s))\<rparr>"
    by (auto simp: WriteNode_def split: prod.splits outcome.splits sum.splits option.splits)
next
  fix outNode
  assume "nodeToJSON E (node\<lparr>Changed := now, Path := ''''\<rparr>) = Returns (Inr outNode)"
  from nodeToJSON_node [OF this] show "Changed (nodeJSON_Node outNode) = now" by simp
qed

theorem WriteNode_stamps_Changed_witness:
  "Error (openClient Map.empty :: ((string \<times> rpc_args) list, unit) MonstiClient) = None
   \<and> fst (nodeToData textEnv (aboutNode\<lparr>Changed := 1400000500\<rparr>) True)
       = Returns (Inr ''{about}'')
   \<and> WriteNode (recordingRpc brokerStub) textEnv 1400000500 ''example'' ''/about'' aboutNode
        (openClient Map.empty :: ((string \<times> rpc_args) list, unit) MonstiClient)
       = (Returns None, aboutNode\<lparr>Changed := 1400000500\<rparr>,
          (openClient Map.empty)\<lparr>RPCClient :=
             [(''Monsti.WriteNodeData'',
               ArgsSitePathFileContent ''example'' ''/about'' ''node.json'' ''{about}'')]\<rparr>)"
proof -
  have o: "Error (openClient Map.empty :: ((string \<times> rpc_args) list, unit) MonstiClient) = None"
    by (simp add: openClient_def)
  have enc: "nodeToData textEnv (aboutNode\<lparr>Changed := 1400000500\<rparr>) True
               = (Returns (Inr ''{about}''), aboutNode\<lparr>Changed := 1400000500\<rparr>)"
    by (simp add: nodeToData_def nodeToData_body_def nodeToJSON_def aboutNode_def pageType_def
          textEnv_def SplitN2_def Let_def)
  have res: "fst (WriteNode (recordingRpc brokerStub) textEnv 1400000500 ''example'' ''/about''
               aboutNode (openClient Map.empty :: ((string \<times> rpc_args) list, unit) MonstiClient))
             = Returns None"
    using enc
    by (simp add: WriteNode_def WriteNodeData_def callInt_def recordingRpc_def brokerStub_def
          openClient_def)
  from WriteNode_stamps_Changed [OF o, of "recordingRpc brokerStub" textEnv 1400000500
         "''example''" "''/about''" aboutNode] enc res o
  show ?thesis
    by (simp add: recordingRpc_def openClient_def prod_eq_iff)
qed

section \<open>Waiting for a signal\<close>

text \<open>
  A delivered signal whose name has a registered handler: the handler is invoked once,
  on the decoded argument (the state of the surrounding program after \<open>WaitSignal\<close> is
  its state after one run of the handler).
\<close>

lemma WaitSignal_invokes_handler_once:
  assumes "Error s = None"
    and "rpc ''Monsti.WaitSignal'' (ArgString (ClientId s)) (RPCClient s)
           = (Inr (ReplySignal name args), t)"
    and "gobDecode args = Inr a"
    and "SignalHandlers s name = Some handle"
  shows "snd (snd (WaitSignal rpc gobDecode gobEncode s w)) = snd (handle a w)"
  using assms
  by (auto simp: WaitSignal_def callSignal_def split: prod.splits sum.splits option.splits)

text \<open>
  The whole exchange with a handler that answers: the handler runs once, and its encoded
  answer is reported with \<open>Monsti.FinishSignal\<close>.
\<close>

lemma WaitSignal_answering_handler:
  "WaitSignal (recordingRpc brokerStub) gobIdentity gobIdentity
       (openClient [''beforeSave'' \<mapsto> answeringHandler]) 0
     = (Returns None,
        (openClient [''beforeSave'' \<mapsto> answeringHandler])
          \<lparr>RPCClient := [(''Monsti.WaitSignal'', ArgString ''worker''),
                         (''Monsti.FinishSignal'', ArgsIdRet ''worker'' ''seen /x'')]\<rparr>,
        1)"
  by (simp add: WaitSignal_def callSignal_def callInt_def recordingRpc_def brokerStub_def
        openClient_def gobIdentity_def answeringHandler_def)

text \<open>
  Claim C3: a delivered signal whose name has no registered handler makes \<open>WaitSignal\<close>
  return an error value; it neither hangs nor crashes. The code at a failing input: the
  client has no handler, the broker delivers \<open>beforeSave\<close>; the call of the nil handler
  panics after the one transport call, and no error value is returned.
\<close>

theorem WaitSignal_unregistered_name_panics:
  "WaitSignal (recordingRpc brokerStub) gobIdentity gobIdentity (openClient Map.empty) (0::nat)
     = (Panics ''nil pointer dereference'',
        (openClient Map.empty)\<lparr>RPCClient := [(''Monsti.WaitSignal'', ArgString ''worker'')]\<rparr>,
        0)"
  by (simp add: WaitSignal_def callSignal_def recordingRpc_def brokerStub_def openClient_def
        gobIdentity_def)

text \<open>
  Claim C4, as stated: when the handler returns an error, \<open>WaitSignal\<close> returns an error
  and still issues \<open>Monsti.FinishSignal\<close>. It fails where the handler of \<open>beforeSave\<close>
  fails: the transport has seen the call of \<open>Monsti.WaitSignal\<close> and nothing else.
\<close>

theorem handler_failure_not_reported_counterexample:
  "WaitSignal (recordingRpc brokerStub) gobIdentity gobIdentity
       (openClient [''beforeSave'' \<mapsto> failingHandler]) 0
     = (Returns (Some (Errorf ''service: Signal handler for beforeSave returned error: ''
                         (ErrMsg ''handler failed''))),
        (openClient [''beforeSave'' \<mapsto> failingHandler])
          \<lparr>RPCClient := [(''Monsti.WaitSignal'', ArgString ''worker'')]\<rparr>,
        1)
   \<and> ''Monsti.FinishSignal''
       \<notin> fst ` set (RPCClient (fst (snd (WaitSignal (recordingRpc brokerStub) gobIdentity
                      gobIdentity (openClient [''beforeSave'' \<mapsto> failingHandler]) 0))))"
  by (simp add: WaitSignal_def callSignal_def recordingRpc_def brokerStub_def openClient_def
        gobIdentity_def failingHandler_def)

text \<open>
  Claim C4, amended: when the registered handler returns an error, \<open>WaitSignal\<close> returns
  an error that wraps the handler's error and names the signal, and makes no transport
  call after \<open>Monsti.WaitSignal\<close>: the connection is as that call left it, and
  \<open>Monsti.FinishSignal\<close> is not issued.
\<close>

theorem handler_failure_returns_early:
  assumes "Error s = None"
    and "rpc ''Monsti.WaitSignal'' (ArgString (ClientId s)) (RPCClient s)
           = (Inr (ReplySignal name args), t)"
    and "gobDecode args = Inr a"
    and "SignalHandlers s name = Some handle"
    and "handle a w = ((ret, Some err), w')"
  shows "WaitSignal rpc gobDecode gobEncode s w
           = (Returns (Some (Errorf (''service: Signal handler for '' @ name
                                       @ '' returned error: '') err)),
              s\<lparr>RPCClient := t\<rparr>, w')"
  using assms by (simp add: WaitSignal_def callSignal_def)

theorem handler_failure_returns_early_witness:
  "Error (openClient [''beforeSave'' \<mapsto> failingHandler]) = None
   \<and> recordingRpc brokerStub ''Monsti.WaitSignal''
        (ArgString (ClientId (openClient [''beforeSave'' \<mapsto> failingHandler])))
        (RPCClient (openClient [''beforeSave'' \<mapsto> failingHandler]))
      = (Inr (ReplySignal ''beforeSave'' ''/x''), [(''Monsti.WaitSignal'', ArgString ''worker'')])
   \<and> gobIdentity ''/x'' = Inr ''/x''
   \<and> SignalHandlers (openClient [''beforeSave'' \<mapsto> failingHandler]) ''beforeSave''
      = Some failingHandler
   \<and> failingHandler ''/x'' 0 = (([], Some (ErrMsg ''handler failed'')), 1)
   \<and> WaitSignal (recordingRpc brokerStub) gobIdentity gobIdentity
        (openClient [''beforeSave'' \<mapsto> failingHandler]) 0
      = (Returns (Some (Errorf (''service: Signal handler for '' @ ''beforeSave''
                                  @ '' returned error: '') (ErrMsg ''handler failed''))),
         (openClient [''beforeSave'' \<mapsto> failingHandler])
           \<lparr>RPCClient := [(''Monsti.WaitSignal'', ArgString ''worker'')]\<rparr>,
         1)"
proof -
  let ?s = "openClient [''beforeSave'' \<mapsto> failingHandler]"
  have h1: "Error ?s = None" by (simp add: openClient_def)
  have h2: "recordingRpc brokerStub ''Monsti.WaitSignal'' (ArgString (ClientId ?s)) (RPCClient ?s)
              = (Inr (ReplySignal ''beforeSave'' ''/x''),
                 [(''Monsti.WaitSignal'', ArgString ''worker'')])"
    by (simp add: openClient_def recordingRpc_def brokerStub_def)
  have h3: "gobIdentity ''/x'' = Inr ''/x''" by (simp add: gobIdentity_def)
  have h4: "SignalHandlers ?s ''beforeSave'' = Some failingHandler" by (simp add: openClient_def)
  have h5: "failingHandler ''/x'' 0 = (([], Some (ErrMsg ''handler failed'')), 1)"
    by (simp add: failingHandler_def)
  from handler_failure_returns_early [where s = ?s and rpc = "recordingRpc brokerStub"
         and name = "''beforeSave''" and args = "''/x''"
         and t = "[(''Monsti.WaitSignal'', ArgString ''worker'')]" and gobDecode = gobIdentity
         and a = "''/x''" and handle = failingHandler and w = 0 and ret = "[]"
         and err = "ErrMsg ''handler failed''" and w' = 1 and gobEncode = gobIdentity,
         OF h1 h2 h3 h4 h5] h1 h2 h3 h4 h5
  show ?thesis by simp
qed

section \<open>Reading a site configuration\<close>

text \<open>
  A zero-length reply leaves \<open>out\<close> as it was and is no error. A reply that decodes to a
  mapping with at least one entry gives \<open>out\<close> the value of the first key enumerated,
  unless that value is nil; the other entries are ignored.
\<close>

lemma getConfig_empty_reply: "getConfig unmarshal [] out = Returns (None, out)"
  by (simp add: getConfig_def)

lemma getConfig_first_entry:
  "reply \<noteq> [] \<Longrightarrow> unmarshal reply = Inr ((key, value) # others) \<Longrightarrow>
   getConfig unmarshal reply out = Returns (None, case value of None \<Rightarrow> out | Some v \<Rightarrow> v)"
  by (simp add: getConfig_def split: option.splits)

text \<open>
  Claim C9: \<open>GetSiteConfig\<close> extracts the first key's value of the reply into \<open>out\<close>, a
  zero-length reply leaves \<open>out\<close> unchanged, and for every well-formed reply the
  operation returns normally. The code at a failing input: the reply is the empty JSON
  object, which decodes to a mapping without keys; indexing its key list panics.
\<close>

theorem getConfig_empty_object_panics:
  "getConfig unmarshalConfig ''{}'' (0::int) = Panics ''index out of range''
   \<and> GetSiteConfig (recordingRpc brokerStub) unmarshalConfig ''example'' ''mail'' (0::int)
        (openClient Map.empty :: ((string \<times> rpc_args) list, unit) MonstiClient)
      = (Panics ''index out of range'',
         (openClient Map.empty)\<lparr>RPCClient :=
            [(''Monsti.GetSiteConfig'', ArgsSiteName ''example'' ''mail'')]\<rparr>)"
  by (simp add: getConfig_def GetSiteConfig_def callBytes_def unmarshalConfig_def
        recordingRpc_def brokerStub_def openClient_def)

end
